theory Spec2Isabelle
  imports Complex_Main "HOL-Library.Word"
begin

section \<open>Numbers of the calculator\<close>

text \<open>
  The dashboard computes on JavaScript numbers. A number is finite, an infinity or NaN;
  the finite ones are modelled exactly, as rationals, so the rounding error of binary
  floating point is left out of the model. \<open>Math.max\<close> and \<open>Math.min\<close> are \<open>max\<close> and
  \<open>min\<close>, \<open>Math.ceil\<close> is the ceiling, and \<open>Math.round\<close> rounds to the nearest integer
  with halves going up.
\<close>

datatype jsnum = Fin rat | PosInf | NegInf | NaN

fun isFinite :: "jsnum \<Rightarrow> bool" where
  "isFinite (Fin _) = True"
| "isFinite _ = False"

definition Math_round :: "rat \<Rightarrow> rat" where
  "Math_round x = of_int \<lfloor>x + 1 / 2\<rfloor>"

definition Math_ceil :: "rat \<Rightarrow> rat" where
  "Math_ceil x = of_int \<lceil>x\<rceil>"

section \<open>Utilities at the top of page.tsx\<close>

definition monthsToGoal :: "rat \<Rightarrow> rat \<Rightarrow> rat \<Rightarrow> rat" where
  "monthsToGoal target saved monthly =
     (let remaining = max 0 (target - saved)
      in Math_ceil (remaining / max 1 monthly))"

record breakdown =
  crypto :: rat
  etf :: rat
  bond :: rat

definition investBreakdown :: "rat \<Rightarrow> rat \<Rightarrow> breakdown" where
  "investBreakdown total' cryptoPct =
     (let cap = min 10 (max 0 cryptoPct) / 100;
          crypto = Math_round (total' * cap);
          remaining = max 0 (total' - crypto);
          etf = Math_round (remaining * (8 / 10));
          bond = max 0 (remaining - etf)
      in \<lparr> crypto = crypto, etf = etf, bond = bond \<rparr>)"

section \<open>LabeledNumber: what a numeric field hands to its setter\<close>

text \<open>
  \<open>onChange\<close> reads the raw text of the input element, converts it with the language's
  \<open>Number\<close> and calls \<open>setVal\<close>; the model returns the value given to \<open>setVal\<close>. The
  conversion is a parameter. The two buttons call \<open>setVal\<close> with the current value
  stepped down or up.
\<close>

definition onChange :: "(string \<Rightarrow> jsnum) \<Rightarrow> string \<Rightarrow> jsnum" where
  "onChange Number raw =
     (let n = (if raw = [] then Fin 0 else Number raw)
      in if isFinite n then n else Fin 0)"

definition minusButton :: "rat \<Rightarrow> rat \<Rightarrow> rat" where
  "minusButton val step = max 0 (Math_round (val - step))"

definition plusButton :: "rat \<Rightarrow> rat \<Rightarrow> rat" where
  "plusButton val step = max 0 (Math_round (val + step))"

text \<open>
  The conversion on the texts a number field produces for plain decimal entries: an
  optional sign, then \<open>Infinity\<close> or digits with an optional fraction. The empty text
  converts to 0. Exponents, other radixes and surrounding white space are outside this
  fragment and read as NaN here.
\<close>

definition digit :: "char \<Rightarrow> nat option" where
  "digit = map_of [(CHR ''0'', 0), (CHR ''1'', 1), (CHR ''2'', 2), (CHR ''3'', 3),
     (CHR ''4'', 4), (CHR ''5'', 5), (CHR ''6'', 6), (CHR ''7'', 7), (CHR ''8'', 8),
     (CHR ''9'', 9)]"

fun digits :: "nat \<Rightarrow> string \<Rightarrow> nat option" where
  "digits acc [] = Some acc"
| "digits acc (c # cs) =
     (case digit c of None \<Rightarrow> None | Some d \<Rightarrow> digits (10 * acc + d) cs)"

definition unsignedDecimal :: "string \<Rightarrow> rat option" where
  "unsignedDecimal s =
     (let ip = takeWhile (\<lambda>c. c \<noteq> CHR ''.'') s;
          fp = drop 1 (dropWhile (\<lambda>c. c \<noteq> CHR ''.'') s)
      in if ip = [] \<and> fp = [] then None
         else (case (digits 0 ip, digits 0 fp) of
                 (Some a, Some b) \<Rightarrow> Some (of_nat a + of_nat b / 10 ^ length fp)
               | _ \<Rightarrow> None))"

definition decimalNumber :: "string \<Rightarrow> jsnum" where
  "decimalNumber raw =
     (let neg = (take 1 raw = ''-'');
          body = (if take 1 raw = ''-'' \<or> take 1 raw = ''+'' then drop 1 raw else raw)
      in if raw = [] then Fin 0
         else if body = ''Infinity'' then (if neg then NegInf else PosInf)
         else (case unsignedDecimal body of
                 None \<Rightarrow> NaN
               | Some q \<Rightarrow> Fin (if neg then - q else q)))"

section \<open>Allocation: cash versus invest\<close>

text \<open>
  The body of the \<open>useMemo\<close> that yields \<open>recSaveCash\<close>, \<open>recInvest\<close> and \<open>investShare\<close>
  from \<open>leftover\<close>, \<open>risk\<close>, \<open>ccDebt\<close> and \<open>ccApr\<close>. The risk profile is a string, as in
  the source. \<open>baseShare\<close> is the variable \<open>share\<close> after its first two assignments,
  \<open>share\<close> is the same variable after the debt override.
\<close>

definition baseShare :: "string \<Rightarrow> rat" where
  "baseShare risk =
     (let share = (if risk = ''conservative'' then 3 / 10
                   else if risk = ''balanced'' then 55 / 100 else 75 / 100)
      in if risk = ''yolo'' then 8 / 10 else share)"

definition share :: "string \<Rightarrow> rat \<Rightarrow> rat \<Rightarrow> rat" where
  "share risk ccDebt ccApr =
     (if ccDebt > 0 \<and> ccApr > 10 then max (15 / 100) (baseShare risk - 25 / 100)
      else baseShare risk)"

record allocation =
  recSaveCash :: rat
  recInvest :: rat
  investShare :: rat

definition allocate :: "rat \<Rightarrow> string \<Rightarrow> rat \<Rightarrow> rat \<Rightarrow> allocation" where
  "allocate leftover risk ccDebt ccApr =
     (let sh = share risk ccDebt ccApr;
          invest = Math_round (leftover * sh);
          save = max 0 (leftover - invest);
          effectiveShare = (if leftover > 0 then invest / max 1 leftover else sh)
      in \<lparr> recSaveCash = save, recInvest = invest, investShare = effectiveShare \<rparr>)"

section \<open>Insights\<close>

text \<open>
  An insight's \<open>detail\<close> is a sentence with numbers printed into it; the model keeps
  the numbers, in the order they are printed, since their formatting depends on the
  locale. The function is the body of the \<open>useMemo\<close>, over the nine values the memo
  depends on; each \<open>push\<close> appends to \<open>out\<close>, and \<open>slice(0, 5)\<close> keeps the first five.
\<close>

record insight =
  title :: string
  detail :: "rat list"
  tag :: string
  cta :: string

definition insightsMemo ::
  "rat \<Rightarrow> rat \<Rightarrow> rat \<Rightarrow> rat \<Rightarrow> rat \<Rightarrow> rat \<Rightarrow> rat \<Rightarrow> rat \<Rightarrow> rat \<Rightarrow> insight list" where
  "insightsMemo income rent ccDebt ccApr subscriptions dining monthlyToGoals
       monthlyCoreSpend emergencyTarget =
     (let housingPct = rent / max 1 income * 100;
          out1 = (if housingPct > 35
                  then [\<lparr> title = ''Housing Is High vs Benchmark'',
                          detail = [housingPct, Math_round ((housingPct - 30) / 100 * income)],
                          tag = ''benchmark'', cta = ''What does this mean for me?'' \<rparr>]
                  else []);
          out2 = (if ccDebt > 0 \<and> ccApr \<ge> 15
                  then out1 @ [\<lparr> title = ''High-Interest Debt First'',
                          detail = [ccApr, min 300 monthlyToGoals,
                                    Math_round (ccApr / 100 / 12 * ccDebt)],
                          tag = ''debt'', cta = ''Help me prioritize payments'' \<rparr>]
                  else out1);
          out3 = (if subscriptions > 40
                  then out2 @ [\<lparr> title = ''Subscriptions Audit'',
                          detail = [subscriptions, subscriptions * 12],
                          tag = ''quick win'', cta = ''Which ones should I cancel?'' \<rparr>]
                  else out2);
          out4 = (if dining > 200
                  then out3 @ [\<lparr> title = ''Dining Out Creep'',
                          detail = [dining, Math_round (dining * (2 / 10)),
                                    Math_round (dining * (2 / 10) * 12)],
                          tag = ''behavior'', cta = ''Give me a 3-step plan'' \<rparr>]
                  else out3);
          out5 = (if monthlyToGoals < 500
                  then out4 @ [\<lparr> title = ''Increase Savings Rate'',
                          detail = [monthlyToGoals, Math_round (income * (2 / 10))],
                          tag = ''coach'', cta = ''How can I get there?'' \<rparr>]
                  else out4);
          out6 = (if monthlyCoreSpend > 0
                  then out5 @ [\<lparr> title = ''Emergency Fund Target'',
                          detail = [emergencyTarget, monthlyCoreSpend],
                          tag = ''safety'', cta = ''How did you calculate this?'' \<rparr>]
                  else out5)
      in take 5 out6)"

section \<open>The dashboard\<close>

text \<open>
  The state of \<open>GrainDashboard\<close> (one field per \<open>useState\<close> that the calculator reads)
  and the values derived from it on every render.
\<close>

record goal =
  goal_id :: nat
  goal_name :: string
  target :: rat
  saved :: rat

definition DEMO_GOALS :: "goal list" where
  "DEMO_GOALS =
     [\<lparr> goal_id = 1, goal_name = ''Condo Down Payment'', target = 25000, saved = 8200 \<rparr>,
      \<lparr> goal_id = 2, goal_name = ''Travel Fund'', target = 3000, saved = 1200 \<rparr>]"

definition primaryGoal :: goal where
  "primaryGoal = DEMO_GOALS ! 0"

record dashboard =
  income :: rat
  rent :: rat
  utilities :: rat
  insurance :: rat
  transport :: rat
  groceries :: rat
  dining :: rat
  subscriptions :: rat
  other :: rat
  ccDebt :: rat
  ccApr :: rat
  studentLoan :: rat
  studentApr :: rat
  risk :: string
  cryptoPct :: rat
  whatIf :: rat

definition initial :: dashboard where
  "initial = \<lparr> income = 4000, rent = 2000, utilities = 180, insurance = 120,
     transport = 160, groceries = 420, dining = 220, subscriptions = 45, other = 120,
     ccDebt = 1200, ccApr = 1999 / 100, studentLoan = 8000, studentApr = 52 / 10,
     risk = ''balanced'', cryptoPct = 0, whatIf = 0 \<rparr>"

definition fixedTotal :: "dashboard \<Rightarrow> rat" where
  "fixedTotal s = rent s + utilities s + insurance s + subscriptions s"

definition variableTotal :: "dashboard \<Rightarrow> rat" where
  "variableTotal s = transport s + groceries s + dining s + other s"

definition spendTotal :: "dashboard \<Rightarrow> rat" where
  "spendTotal s = fixedTotal s + variableTotal s"

definition leftover :: "dashboard \<Rightarrow> rat" where
  "leftover s = max 0 (income s - spendTotal s)"

definition monthlyCoreSpend :: "dashboard \<Rightarrow> rat" where
  "monthlyCoreSpend s = rent s + utilities s + groceries s + transport s + insurance s"

definition emergencyTarget :: "dashboard \<Rightarrow> rat" where
  "emergencyTarget s = Math_round (monthlyCoreSpend s * 4)"

definition plan :: "dashboard \<Rightarrow> allocation" where
  "plan s = allocate (leftover s) (risk s) (ccDebt s) (ccApr s)"

definition monthlyToGoals :: "dashboard \<Rightarrow> rat" where
  "monthlyToGoals s = recSaveCash (plan s) + recInvest (plan s)"

definition monthlyToGoalsBoosted :: "dashboard \<Rightarrow> rat" where
  "monthlyToGoalsBoosted s = monthlyToGoals s + whatIf s"

definition investSharePct :: "dashboard \<Rightarrow> rat" where
  "investSharePct s = Math_round (min 1 (max 0 (investShare (plan s))) * 100)"

definition mix :: "dashboard \<Rightarrow> breakdown" where
  "mix s = investBreakdown (recInvest (plan s)) (cryptoPct s)"

definition monthsToPrimary :: "dashboard \<Rightarrow> rat" where
  "monthsToPrimary s = monthsToGoal (target primaryGoal) (saved primaryGoal) (monthlyToGoals s)"

definition monthsToPrimaryBoost :: "dashboard \<Rightarrow> rat" where
  "monthsToPrimaryBoost s =
     monthsToGoal (target primaryGoal) (saved primaryGoal) (monthlyToGoalsBoosted s)"

definition insights :: "dashboard \<Rightarrow> insight list" where
  "insights s = insightsMemo (income s) (rent s) (ccDebt s) (ccApr s) (subscriptions s)
     (dining s) (monthlyToGoals s) (monthlyCoreSpend s) (emergencyTarget s)"

text \<open>\<open>GoalRow\<close> projects each goal at the base pace and at the boosted pace.\<close>

definition mBase :: "rat \<Rightarrow> rat \<Rightarrow> rat \<Rightarrow> rat" where
  "mBase tgt sav monthly = monthsToGoal tgt sav monthly"

definition mBoost :: "rat \<Rightarrow> rat \<Rightarrow> rat \<Rightarrow> rat \<Rightarrow> rat" where
  "mBoost tgt sav monthly monthlyBoost = monthsToGoal tgt sav (monthly + monthlyBoost)"

section \<open>The chat proxy\<close>

text \<open>
  \<open>getOpenAIClient\<close> keeps its result in the module variable \<open>cachedClient\<close>, which is
  \<open>undefined\<close> (\<open>None\<close>) until the first call, then \<open>null\<close> (\<open>Some None\<close>) or a client.
  The model takes the value of the environment variable and the variable's content and
  returns the result with the new content. A client is known by the key it was built from.
\<close>

datatype client = OpenAI string

definition getOpenAIClient ::
  "string option \<Rightarrow> client option option \<Rightarrow> client option \<times> client option option" where
  "getOpenAIClient OPENAI_API_KEY cachedClient =
     (case cachedClient of
        Some c \<Rightarrow> (c, cachedClient)
      | None \<Rightarrow>
          (case OPENAI_API_KEY of
             None \<Rightarrow> (None, Some None)
           | Some apiKey \<Rightarrow>
               if apiKey = [] then (None, Some None)
               else (Some (OpenAI apiKey), Some (Some (OpenAI apiKey)))))"

text \<open>
  A text that the handler receives, builds or sends is a JavaScript string: a sequence
  of 16-bit code units. \<open>ascii\<close> writes such a text from its ASCII characters.
  \<open>String.prototype.trim\<close> removes from both ends the white space and line terminator
  code points of the language: TAB, LF, VT, FF, CR, the space separators U+0020, U+00A0,
  U+1680, U+2000 to U+200A, U+202F, U+205F and U+3000, the separators U+2028 and U+2029,
  and U+FEFF.
\<close>

type_synonym jsstring = "16 word list"

definition ascii :: "string \<Rightarrow> jsstring" where
  "ascii s = map of_char s"

definition whitespace :: "16 word \<Rightarrow> bool" where
  "whitespace c = (c \<in> set [0x0009, 0x000A, 0x000B, 0x000C, 0x000D, 0x0020, 0x00A0, 0x1680,
     0x2000, 0x2001, 0x2002, 0x2003, 0x2004, 0x2005, 0x2006, 0x2007, 0x2008, 0x2009, 0x200A,
     0x2028, 0x2029, 0x202F, 0x205F, 0x3000, 0xFEFF])"

definition trim :: "jsstring \<Rightarrow> jsstring" where
  "trim s = rev (dropWhile whitespace (rev (dropWhile whitespace s)))"

text \<open>
  \<open>POST\<close> answers one request. What the handler cannot decide by itself comes in as
  arguments: the outcome of reading the request body (a thrown value or the body), and
  the upstream call, a function from the client and the completion request to a thrown
  value or the contents of the returned choices (\<open>None\<close> for a choice without message
  content).
\<close>

datatype thrown = Error jsstring | StringValue jsstring | OtherValue

datatype role = system | assistant | user

record ClientMessage =
  role :: role
  text_of :: jsstring

record body =
  messages :: "ClientMessage list option"
  ctx :: "jsstring option"

record ChatMessage =
  chat_role :: role
  content :: jsstring

record completion_request =
  model :: string
  chat_messages :: "ChatMessage list"
  temperature :: rat

datatype json = error_json jsstring | reply_json jsstring

record response =
  status :: nat
  json :: json

definition SYSTEM_PROMPT :: jsstring where
  "SYSTEM_PROMPT =
     [0x000A] @
     ascii ''You are Grain, a Canada-first personal finance guide. '' @
     ascii ''You know the user'' @ [0x0027] @
     ascii ''s monthly budget, debts, and goals.'' @ [0x000A] @
     ascii ''Keep replies short (3'' @ [0x2013] @
     ascii ''6 sentences), actionable, and warm. '' @
     ascii ''Prioritise Canadian accounts (FHSA, TFSA, RRSP, RESP).'' @ [0x000A] @
     ascii ''If the user is dealing with debt, emphasise high-interest payoff '' @
     ascii ''before aggressive investing.'' @ [0x000A] @
     ascii ''Suggest next steps or clarification questions when useful. '' @
     ascii ''Format with short paragraphs or bullet lists when it improves clarity.'' @
     [0x000A]"

definition offline_message :: jsstring where
  "offline_message = ascii ''The AI coach is currently offline. '' @
     ascii ''Add an OPENAI_API_KEY environment variable to re-enable it.''"

definition no_reply_message :: jsstring where
  "no_reply_message = ascii ''Grain could not craft a reply. Please try again.''"

definition unexpected_message :: jsstring where
  "unexpected_message = ascii ''Grain ran into an unexpected issue while talking to OpenAI.''"

definition caught :: "thrown \<Rightarrow> response" where
  "caught e =
     (let message = (case e of Error m \<Rightarrow> m | StringValue m \<Rightarrow> m
                     | OtherValue \<Rightarrow> unexpected_message)
      in \<lparr> status = 500, json = error_json message \<rparr>)"

definition chatMessages :: "body \<Rightarrow> ChatMessage list" where
  "chatMessages b =
     \<lparr> chat_role = system,
       content = trim SYSTEM_PROMPT @
         (case ctx b of
            None \<Rightarrow> []
          | Some c \<Rightarrow> if c = [] then []
                      else [0x000A, 0x000A] @ ascii ''Context:'' @ [0x000A] @ trim c) \<rparr>
     # map (\<lambda>message. \<lparr> chat_role = role message, content = text_of message \<rparr>)
         (case messages b of None \<Rightarrow> [] | Some ms \<Rightarrow> ms)"

definition POST ::
  "string option \<Rightarrow> client option option \<Rightarrow> thrown + body
     \<Rightarrow> (client \<Rightarrow> completion_request \<Rightarrow> thrown + jsstring option list)
     \<Rightarrow> response \<times> client option option" where
  "POST OPENAI_API_KEY cachedClient req_json create =
     (case getOpenAIClient OPENAI_API_KEY cachedClient of
        (None, cache) \<Rightarrow> (\<lparr> status = 503, json = error_json offline_message \<rparr>, cache)
      | (Some cl, cache) \<Rightarrow>
          (case req_json of
             Inl e \<Rightarrow> (caught e, cache)
           | Inr b \<Rightarrow>
               (case create cl \<lparr> model = ''gpt-4o-mini'', chat_messages = chatMessages b,
                                 temperature = 7 / 10 \<rparr> of
                  Inl e \<Rightarrow> (caught e, cache)
                | Inr choices \<Rightarrow>
                    (let reply = (case choices of
                                    [] \<Rightarrow> None
                                  | c # _ \<Rightarrow> map_option trim c)
                     in case reply of
                          None \<Rightarrow> (\<lparr> status = 500, json = error_json no_reply_message \<rparr>, cache)
                        | Some r \<Rightarrow>
                            if r = []
                            then (\<lparr> status = 500, json = error_json no_reply_message \<rparr>, cache)
                            else (\<lparr> status = 200, json = reply_json r \<rparr>, cache)))))"

text \<open>
  A process serves its requests one after the other; each sees the environment of its
  moment and the \<open>cachedClient\<close> the earlier ones left.
\<close>

type_synonym request =
  "string option \<times> (thrown + body)
     \<times> (client \<Rightarrow> completion_request \<Rightarrow> thrown + jsstring option list)"

fun serve :: "client option option \<Rightarrow> request list \<Rightarrow> response list" where
  "serve cachedClient [] = []"
| "serve cachedClient ((key, req_json, create) # rest) =
     (case POST key cachedClient req_json create of
        (resp, cache) \<Rightarrow> resp # serve cache rest)"

fun getOpenAIClient_calls :: "client option option \<Rightarrow> string option list \<Rightarrow> client option list" where
  "getOpenAIClient_calls cachedClient [] = []"
| "getOpenAIClient_calls cachedClient (key # rest) =
     (case getOpenAIClient key cachedClient of
        (c, cache) \<Rightarrow> c # getOpenAIClient_calls cache rest)"


section \<open>Rounding\<close>

lemma floor_rat_numeral [simp]:
  "\<lfloor>numeral a / numeral b :: rat\<rfloor> = numeral a div numeral b"
  by (metis floor_divide_of_int_eq of_int_numeral)

lemma ceiling_rat_numeral [simp]:
  "\<lceil>numeral a / numeral b :: rat\<rceil> = - (- numeral a div numeral b)"
  unfolding ceiling_def
  by (metis floor_divide_of_int_eq of_int_numeral of_int_minus minus_divide_left)

lemma Math_round_le: "Math_round x \<le> x + 1 / 2"
  unfolding Math_round_def by (rule of_int_floor_le)

lemma Math_round_gt: "x - 1 / 2 < Math_round x"
  unfolding Math_round_def by linarith

lemma Math_round_nonneg: "0 \<le> x \<Longrightarrow> 0 \<le> Math_round x"
  unfolding Math_round_def by simp

lemma Math_round_floor_bounds:
  fixes x :: rat
  assumes "0 \<le> x" and "x \<le> of_int n"
  shows "0 \<le> \<lfloor>x + 1 / 2\<rfloor> \<and> \<lfloor>x + 1 / 2\<rfloor> \<le> n"
proof -
  have "x + 1 / 2 < of_int n + 1" using assms by simp
  then have "\<lfloor>x + 1 / 2\<rfloor> \<le> n" by (simp add: floor_le_iff)
  moreover have "0 \<le> \<lfloor>x + 1 / 2\<rfloor>" using assms by simp
  ultimately show ?thesis by simp
qed

section \<open>The investment mix\<close>

text \<open>
  On a whole, non-negative amount (the allocation hands over \<open>recInvest\<close>, a result of
  \<open>Math.round\<close>) both roundings yield whole numbers within the amount they split, so
  neither \<open>Math.max\<close> of the function changes anything.
\<close>

lemma investBreakdown_int:
  fixes n :: int and p :: rat
  assumes "0 \<le> n"
  defines "k \<equiv> \<lfloor>of_int n * (min 10 (max 0 p) / 100) + 1 / 2\<rfloor>"
  defines "j \<equiv> \<lfloor>of_int (n - k) * (8 / 10 :: rat) + 1 / 2\<rfloor>"
  shows "investBreakdown (of_int n) p
           = \<lparr> crypto = of_int k, etf = of_int j, bond = of_int (n - k - j) \<rparr>"
    and "0 \<le> k" and "k \<le> n" and "0 \<le> j" and "j \<le> n - k"
proof -
  let ?cap = "min 10 (max 0 p) / 100"
  have cap: "0 \<le> ?cap" "?cap \<le> 1" by (auto simp: min_def max_def)
  have n0: "(0::rat) \<le> of_int n" using assms by simp
  have "of_int n * ?cap \<le> of_int n * 1"
    using cap n0 by (intro mult_left_mono)
  moreover have "0 \<le> of_int n * ?cap" using cap n0 by simp
  ultimately have k: "0 \<le> k \<and> k \<le> n"
    unfolding k_def by (intro Math_round_floor_bounds) simp_all
  then show "0 \<le> k" "k \<le> n" by simp_all
  have m0: "(0::rat) \<le> of_int (n - k)" using k by simp
  then have "of_int (n - k) * (8 / 10 :: rat) \<le> of_int (n - k)" by simp
  moreover have "0 \<le> of_int (n - k) * (8 / 10 :: rat)" using m0 by simp
  ultimately have j: "0 \<le> j \<and> j \<le> n - k"
    unfolding j_def by (intro Math_round_floor_bounds) simp_all
  then show "0 \<le> j" "j \<le> n - k" by simp_all
  have rem: "max 0 (rat_of_int n - of_int k) = of_int (n - k)"
    using k by (simp add: max_def)
  have bnd: "max 0 (rat_of_int (n - k) - of_int j) = of_int (n - k - j)"
    using j by (simp add: max_def)
  show "investBreakdown (of_int n) p
           = \<lparr> crypto = of_int k, etf = of_int j, bond = of_int (n - k - j) \<rparr>"
    unfolding investBreakdown_def Let_def Math_round_def
    unfolding k_def [symmetric] rem j_def [symmetric] bnd by simp
qed

text \<open>
  On any non-negative amount the parts are not negative and add up to the amount within
  one unit: a rounding that overshoots what it splits is cut off by the \<open>Math.max\<close> that
  follows it.
\<close>

lemma investBreakdown_general:
  fixes t p :: rat
  assumes "0 \<le> t"
  shows "0 \<le> bond (investBreakdown t p)"
    and "\<bar>crypto (investBreakdown t p) + etf (investBreakdown t p)
          + bond (investBreakdown t p) - t\<bar> \<le> 1"
proof -
  define cap where "cap = min 10 (max 0 p) / 100"
  define k where "k = Math_round (t * cap)"
  define rem where "rem = max 0 (t - k)"
  define e where "e = Math_round (rem * (8 / 10))"
  have ib: "investBreakdown t p = \<lparr> crypto = k, etf = e, bond = max 0 (rem - e) \<rparr>"
    by (simp add: investBreakdown_def Let_def cap_def k_def rem_def e_def)
  have cap: "0 \<le> cap" "cap \<le> 1 / 10" by (auto simp: cap_def min_def max_def)
  have "t * cap \<le> t * (1 / 10)" using assms cap by (intro mult_left_mono)
  then have k_le: "k \<le> t / 10 + 1 / 2"
    using Math_round_le [of "t * cap"] by (simp add: k_def)
  have rem0: "0 \<le> rem" by (simp add: rem_def)
  have e0: "0 \<le> e" unfolding e_def using rem0 by (intro Math_round_nonneg) simp
  have "e \<le> rem * (8 / 10) + 1 / 2" unfolding e_def by (rule Math_round_le)
  then have e_lin: "e \<le> (8 / 10) * rem + 1 / 2" by (simp add: mult.commute)
  show "0 \<le> bond (investBreakdown t p)" by (simp add: ib)
  have "\<bar>k + e + max 0 (rem - e) - t\<bar> \<le> 1"
  proof (cases "k \<le> t")
    case True
    then have r: "rem = t - k" by (simp add: rem_def)
    show ?thesis
    proof (cases "e \<le> rem")
      case True
      then show ?thesis using r by simp
    next
      case False
      then have m: "max 0 (rem - e) = 0" by simp
      have "0 \<le> k + e - t" using False r by linarith
      moreover have "k + e - t \<le> 1" using e_lin r True by linarith
      ultimately show ?thesis unfolding m by simp
    qed
  next
    case False
    then have r: "rem = 0" by (simp add: rem_def)
    have m: "max 0 (rem - e) = 0" using r e0 by simp
    have "0 \<le> k + e - t" using False e0 by linarith
    moreover have "k + e - t \<le> 1" using e_lin r k_le assms by linarith
    ultimately show ?thesis unfolding m by simp
  qed
  then show "\<bar>crypto (investBreakdown t p) + etf (investBreakdown t p)
          + bond (investBreakdown t p) - t\<bar> \<le> 1"
    by (simp add: ib)
qed

lemma investBreakdown_whole:
  fixes t p :: rat
  assumes "0 \<le> t" and "t \<in> \<int>"
  shows "etf (investBreakdown t p)
           = Math_round ((t - crypto (investBreakdown t p)) * (8 / 10))"
    and "bond (investBreakdown t p)
           = t - crypto (investBreakdown t p) - etf (investBreakdown t p)"
proof -
  from assms(2) obtain n where t: "t = of_int n" by (rule Ints_cases)
  then have n: "0 \<le> n" using assms(1) by simp
  note ib = investBreakdown_int [OF n, of p]
  show "etf (investBreakdown t p)
           = Math_round ((t - crypto (investBreakdown t p)) * (8 / 10))"
    unfolding t ib(1) by (simp add: Math_round_def)
  show "bond (investBreakdown t p)
           = t - crypto (investBreakdown t p) - etf (investBreakdown t p)"
    unfolding t ib(1) by simp
qed

lemma investBreakdown_fraction:
  "investBreakdown (7 / 10) 0 = \<lparr> crypto = 0, etf = 1, bond = 0 \<rparr>"
  by code_simp

text \<open>
  Claim C4, as stated, at the invest amount 0.7 with no crypto: etf is the rounded 0.56,
  that is 1, which is more than the 0.7 that remains; what remains after etf would be
  -0.3, and bond is 0.
\<close>

theorem investBreakdown_bond_counterexample:
  "(0::rat) \<le> 7 / 10
     \<and> \<not> (bond (investBreakdown (7 / 10) 0)
            = 7 / 10 - crypto (investBreakdown (7 / 10) 0) - etf (investBreakdown (7 / 10) 0))"
  by (simp add: investBreakdown_fraction)

text \<open>
  Claim C4, amended. For every non-negative invest amount and every crypto percentage:
  the cap is the percentage clamped into 0..10, crypto is the rounded capped part of the
  amount, etf is the rounded 80 percent of what remains (the amount less crypto, or 0),
  bond is what remains after etf, or 0 when etf exceeds it, so it is never negative, and
  the three parts are within one unit of the amount. On a whole amount, which is what
  the allocation hands over, bond is exactly what remains after etf.
\<close>

theorem investBreakdown_mix:
  fixes t p :: rat
  assumes "0 \<le> t"
  shows "0 \<le> min 10 (max 0 p) \<and> min 10 (max 0 p) \<le> 10
     \<and> crypto (investBreakdown t p) = Math_round (t * min 10 (max 0 p) / 100)
     \<and> etf (investBreakdown t p)
         = Math_round (max 0 (t - crypto (investBreakdown t p)) * (8 / 10))
     \<and> bond (investBreakdown t p)
         = max 0 (max 0 (t - crypto (investBreakdown t p)) - etf (investBreakdown t p))
     \<and> 0 \<le> bond (investBreakdown t p)
     \<and> \<bar>crypto (investBreakdown t p) + etf (investBreakdown t p)
          + bond (investBreakdown t p) - t\<bar> \<le> 1
     \<and> (t \<in> \<int> \<longrightarrow>
          etf (investBreakdown t p)
            = Math_round ((t - crypto (investBreakdown t p)) * (8 / 10))
          \<and> bond (investBreakdown t p)
              = t - crypto (investBreakdown t p) - etf (investBreakdown t p))"
proof -
  have c: "crypto (investBreakdown t p) = Math_round (t * min 10 (max 0 p) / 100)"
    by (simp add: investBreakdown_def Let_def)
  have e: "etf (investBreakdown t p)
         = Math_round (max 0 (t - crypto (investBreakdown t p)) * (8 / 10))"
    by (simp add: investBreakdown_def Let_def)
  have b: "bond (investBreakdown t p)
         = max 0 (max 0 (t - crypto (investBreakdown t p)) - etf (investBreakdown t p))"
    by (simp add: investBreakdown_def Let_def)
  have r: "0 \<le> min 10 (max 0 p)" "min 10 (max 0 p) \<le> 10" by simp_all
  note g = investBreakdown_general [OF assms, of p]
  have w: "t \<in> \<int> \<longrightarrow>
          etf (investBreakdown t p)
            = Math_round ((t - crypto (investBreakdown t p)) * (8 / 10))
          \<and> bond (investBreakdown t p)
              = t - crypto (investBreakdown t p) - etf (investBreakdown t p)"
    using investBreakdown_whole [OF assms, of p] by blast
  show ?thesis using r c e b g w by (intro conjI)
qed

theorem investBreakdown_mix_witness:
  "(0::rat) \<le> 404 \<and> (404::rat) \<in> \<int>
     \<and> investBreakdown 404 5 = \<lparr> crypto = 20, etf = 307, bond = 77 \<rparr>
     \<and> (20::rat) = Math_round (404 * min 10 (max 0 5) / 100)
     \<and> (307::rat) = Math_round ((404 - 20) * (8 / 10))
     \<and> (77::rat) = 404 - 20 - 307
     \<and> \<bar>(20::rat) + 307 + 77 - 404\<bar> \<le> 1"
proof -
  have e: "investBreakdown 404 5 = \<lparr> crypto = 20, etf = 307, bond = 77 \<rparr>"
    by (simp add: investBreakdown_def Math_round_def Let_def)
  have "(0::rat) \<le> 404" by simp
  from investBreakdown_mix [OF this, of 5] show ?thesis
    by (simp add: e)
qed

section \<open>The allocation\<close>

lemma baseShare_cases:
  "baseShare r = 3 / 10 \<or> baseShare r = 55 / 100 \<or> baseShare r = 75 / 100
     \<or> baseShare r = 8 / 10"
  by (simp add: baseShare_def)

lemma share_bounds: "15 / 100 \<le> share r d a \<and> share r d a \<le> 8 / 10"
  using baseShare_cases [of r] by (auto simp: share_def)

lemma share_override_less: "0 < d \<Longrightarrow> 10 < a \<Longrightarrow> share r d a < baseShare r"
  using baseShare_cases [of r] by (auto simp: share_def)

lemma allocate_fields:
  "recInvest (allocate l r d a) = Math_round (l * share r d a)"
  "recSaveCash (allocate l r d a) = max 0 (l - Math_round (l * share r d a))"
  "investShare (allocate l r d a)
     = (if 0 < l then Math_round (l * share r d a) / max 1 l else share r d a)"
  by (simp_all add: allocate_def Let_def)

lemma allocate_735_balanced:
  "\<not> (0 < d \<and> 10 < a) \<Longrightarrow> allocate 735 ''balanced'' d a
     = \<lparr> recSaveCash = 331, recInvest = 404, investShare = 404 / 735 \<rparr>"
  by (simp add: allocate_def Let_def share_def baseShare_def Math_round_def)

lemma allocate_735_balanced_card:
  "allocate 735 ''balanced'' 1200 (1999 / 100)
     = \<lparr> recSaveCash = 514, recInvest = 221, investShare = 221 / 735 \<rparr>"
  by (simp add: allocate_def Let_def share_def baseShare_def Math_round_def)

lemma leftover_initial: "leftover initial = 735"
  by (simp add: leftover_def spendTotal_def fixedTotal_def variableTotal_def initial_def)

lemma plan_initial:
  "plan initial = \<lparr> recSaveCash = 514, recInvest = 221, investShare = 221 / 735 \<rparr>"
  unfolding plan_def leftover_initial
  by (simp add: initial_def allocate_735_balanced_card)

text \<open>
  Claim C1, as stated, at the profile \<open>growth\<close>: its base share is not the 0.55 of
  \<open>balanced\<close>. The first assignment gives 0.75 to every profile that is neither
  \<open>conservative\<close> nor \<open>balanced\<close>, and only \<open>yolo\<close> is then set to 0.80.
\<close>

theorem baseShare_growth_counterexample:
  "\<not> (baseShare ''growth'' = 55 / 100) \<and> baseShare ''growth'' \<noteq> baseShare ''balanced''"
  by (simp add: baseShare_def)

text \<open>
  Claim C1, amended. The base share is 0.30 for \<open>conservative\<close>, 0.55 for \<open>balanced\<close>,
  0.80 for \<open>yolo\<close> and 0.75 for \<open>growth\<close> (as for any other profile text); it depends on
  nothing else: for every leftover and card debt the invested amount is the rounded
  product of the leftover with the base share, lowered by the debt override when that
  applies.
\<close>

theorem baseShare_table:
  "baseShare ''conservative'' = 30 / 100 \<and> baseShare ''balanced'' = 55 / 100
     \<and> baseShare ''growth'' = 75 / 100 \<and> baseShare ''yolo'' = 80 / 100
     \<and> baseShare r = (if r = ''conservative'' then 30 / 100
                       else if r = ''balanced'' then 55 / 100
                       else if r = ''yolo'' then 80 / 100 else 75 / 100)
     \<and> recInvest (allocate l r d a)
         = Math_round (l * (if 0 < d \<and> 10 < a then max (15 / 100) (baseShare r - 25 / 100)
                            else baseShare r))"
  by (simp add: baseShare_def allocate_fields share_def)

theorem baseShare_table_witness:
  "baseShare ''growth'' = 75 / 100 \<and> recInvest (allocate 735 ''growth'' 0 0) = 551
     \<and> (551::rat) = Math_round (735 * (75 / 100))"
  using baseShare_table [where r = "''growth''" and l = 735 and d = 0 and a = 0]
  by (simp add: baseShare_def Math_round_def)

text \<open>
  Claim C2, as stated, at a dashboard whose only debt above 10 percent is the student
  loan (balance 8000 at 12 percent, no card balance): the share stays at the base share
  of the profile, and 404 of the 735 left over is invested, as without any debt.
\<close>

theorem share_student_loan_counterexample:
  "\<not> ((0 < ccDebt (initial\<lparr> ccDebt := 0, studentApr := 12 \<rparr>)
          \<and> 10 < ccApr (initial\<lparr> ccDebt := 0, studentApr := 12 \<rparr>))
        \<or> (0 < studentLoan (initial\<lparr> ccDebt := 0, studentApr := 12 \<rparr>)
          \<and> 10 < studentApr (initial\<lparr> ccDebt := 0, studentApr := 12 \<rparr>))
      \<longrightarrow> share (risk (initial\<lparr> ccDebt := 0, studentApr := 12 \<rparr>))
            (ccDebt (initial\<lparr> ccDebt := 0, studentApr := 12 \<rparr>))
            (ccApr (initial\<lparr> ccDebt := 0, studentApr := 12 \<rparr>))
          < baseShare (risk (initial\<lparr> ccDebt := 0, studentApr := 12 \<rparr>)))
   \<and> recInvest (plan (initial\<lparr> ccDebt := 0, studentApr := 12 \<rparr>)) = 404"
proof -
  have l: "leftover (initial\<lparr> ccDebt := 0, studentApr := 12 \<rparr>) = 735"
    by (simp add: leftover_def spendTotal_def fixedTotal_def variableTotal_def initial_def)
  have "plan (initial\<lparr> ccDebt := 0, studentApr := 12 \<rparr>) = allocate 735 ''balanced'' 0 (1999 / 100)"
    unfolding plan_def l by (simp add: initial_def)
  then have "recInvest (plan (initial\<lparr> ccDebt := 0, studentApr := 12 \<rparr>)) = 404"
    by (simp add: allocate_735_balanced)
  then show ?thesis
    by (simp add: initial_def share_def)
qed

text \<open>
  Claim C2, amended. The override looks at the credit card only: when the card balance
  is positive and the card rate above 10, the share is the base share less 0.25 and not
  below 0.15, and it is strictly below the base share; otherwise the share is the base
  share. The student loan's balance and rate do not enter the allocation.
\<close>

theorem share_card_override:
  "(0 < ccDebt s \<and> 10 < ccApr s \<longrightarrow>
       share (risk s) (ccDebt s) (ccApr s) = max (15 / 100) (baseShare (risk s) - 25 / 100)
       \<and> share (risk s) (ccDebt s) (ccApr s) < baseShare (risk s))
   \<and> (\<not> (0 < ccDebt s \<and> 10 < ccApr s) \<longrightarrow>
       share (risk s) (ccDebt s) (ccApr s) = baseShare (risk s))
   \<and> plan (s\<lparr> studentLoan := x, studentApr := y \<rparr>) = plan s"
  using share_override_less [of "ccDebt s" "ccApr s" "risk s"]
  by (simp add: share_def plan_def leftover_def spendTotal_def fixedTotal_def variableTotal_def)

theorem share_card_override_witness:
  "0 < ccDebt initial \<and> 10 < ccApr initial
     \<and> share (risk initial) (ccDebt initial) (ccApr initial) = 30 / 100
     \<and> share (risk initial) (ccDebt initial) (ccApr initial) < baseShare (risk initial)
     \<and> plan (initial\<lparr> studentLoan := 0, studentApr := 25 \<rparr>) = plan initial"
  using share_card_override [where s = initial and x = 0 and y = 25]
  by (simp add: initial_def share_def baseShare_def)

lemma investShare_nonneg:
  assumes "0 \<le> l"
  shows "0 \<le> investShare (allocate l r d a)"
proof (cases "l = 0")
  case True
  then show ?thesis using share_bounds [of r d a] by (simp add: allocate_fields)
next
  case False
  then have l: "0 < l" using assms by simp
  have "0 \<le> l * share r d a" using l share_bounds [of r d a] by simp
  then have "0 \<le> Math_round (l * share r d a)" by (rule Math_round_nonneg)
  then show ?thesis using l by (simp add: allocate_fields)
qed

lemma investShare_near:
  assumes "1 \<le> l"
  shows "investShare (allocate l r d a) = recInvest (allocate l r d a) / l"
    and "\<bar>investShare (allocate l r d a) - share r d a\<bar> \<le> 1 / (2 * l)"
proof -
  have l: "0 < l" using assms by simp
  define v where "v = Math_round (l * share r d a)"
  show eq: "investShare (allocate l r d a) = recInvest (allocate l r d a) / l"
    using assms l by (simp add: allocate_fields max_def)
  have "\<bar>v - l * share r d a\<bar> \<le> 1 / 2"
    using Math_round_le [of "l * share r d a"] Math_round_gt [of "l * share r d a"]
    unfolding v_def by linarith
  then have "\<bar>v - l * share r d a\<bar> / l \<le> (1 / 2) / l"
    using l by (intro divide_right_mono) simp_all
  moreover have "\<bar>v - l * share r d a\<bar> / l = \<bar>v / l - share r d a\<bar>"
    using l by (simp add: abs_if field_simps)
  moreover have "investShare (allocate l r d a) = v / l"
    unfolding eq by (simp add: allocate_fields v_def)
  ultimately show "\<bar>investShare (allocate l r d a) - share r d a\<bar> \<le> 1 / (2 * l)"
    by simp
qed

text \<open>
  Claim C3, as stated, at a leftover of 1 with the balanced profile and no debt: the
  single unit is invested whole, and the reported share is 1, above 0.80.
\<close>

theorem investShare_range_counterexample:
  "(0::rat) \<le> 1 \<and> \<not> (investShare (allocate 1 ''balanced'' 0 0) \<le> 80 / 100)"
  by (simp add: allocate_def Let_def share_def baseShare_def Math_round_def)

text \<open>
  Claim C3, amended. For every risk profile, card debt and non-negative leftover the
  nominal share lies between 0.15 and 0.80, and the reported share is not negative. At
  leftover 0 the reported share is the nominal one. At a leftover of at least 1 it is
  the realized ratio of the invested amount to the leftover, which differs from the
  nominal share by at most one half divided by the leftover.
\<close>

theorem investShare_range:
  "0 \<le> l \<longrightarrow>
     15 / 100 \<le> share r d a \<and> share r d a \<le> 80 / 100
     \<and> 0 \<le> investShare (allocate l r d a)
     \<and> (l = 0 \<longrightarrow> investShare (allocate l r d a) = share r d a)
     \<and> (1 \<le> l \<longrightarrow>
          investShare (allocate l r d a) = recInvest (allocate l r d a) / l
          \<and> \<bar>investShare (allocate l r d a) - share r d a\<bar> \<le> 1 / (2 * l))"
  using share_bounds [of r d a] investShare_nonneg [of l r d a] investShare_near [of l r d a]
  by (simp add: allocate_fields)

theorem investShare_range_witness:
  "(0::rat) \<le> 735 \<and> (1::rat) \<le> 735
     \<and> share ''balanced'' 0 0 = 55 / 100
     \<and> investShare (allocate 735 ''balanced'' 0 0) = 404 / 735
     \<and> \<bar>404 / 735 - 55 / 100\<bar> \<le> 1 / (2 * (735::rat))
     \<and> investShare (allocate 0 ''balanced'' 0 0) = share ''balanced'' 0 0"
  using investShare_range [of 735 "''balanced''" 0 0] investShare_range [of 0 "''balanced''" 0 0]
  by (simp add: allocate_735_balanced share_def baseShare_def)

section \<open>Goal projection\<close>

lemma monthsToGoal_mono:
  assumes "r1 \<le> r2"
  shows "monthsToGoal t s r2 \<le> monthsToGoal t s r1"
proof -
  have "max 0 (t - s) / max 1 r2 \<le> max 0 (t - s) / max 1 r1"
    using assms by (intro divide_left_mono) (auto simp: max_def)
  then show ?thesis
    by (simp add: monthsToGoal_def Math_ceil_def ceiling_mono)
qed

lemma monthsToGoal_done: "t \<le> s \<Longrightarrow> monthsToGoal t s r = 0"
  by (simp add: monthsToGoal_def Math_ceil_def max_def)

lemma monthsToGoal_primary:
  "monthsToGoal 25000 8200 735 = 23" "monthsToGoal 25000 8200 1035 = 17"
  by (simp_all add: monthsToGoal_def Math_ceil_def)

text \<open>
  Claim C5. A higher monthly rate never lengthens the projection; a goal whose saved
  amount has reached its target projects to 0 months; and so, for a non-negative boost,
  the boosted projection of a goal row and of the primary goal is at most the projection
  at the current pace.
\<close>

theorem monthsToGoal_rate:
  "(r1 \<le> r2 \<longrightarrow> monthsToGoal t s r2 \<le> monthsToGoal t s r1)
   \<and> (t' \<le> s' \<longrightarrow> monthsToGoal t' s' r = 0)
   \<and> (0 \<le> boost \<longrightarrow> mBoost t s m boost \<le> mBase t s m)
   \<and> (0 \<le> whatIf st \<longrightarrow> monthsToPrimaryBoost st \<le> monthsToPrimary st)"
  by (simp add: monthsToGoal_mono monthsToGoal_done mBoost_def mBase_def
      monthsToPrimaryBoost_def monthsToPrimary_def monthlyToGoalsBoosted_def)

theorem monthsToGoal_rate_witness:
  "(735::rat) \<le> 1035 \<and> monthsToGoal 25000 8200 1035 \<le> monthsToGoal 25000 8200 735
   \<and> (3000::rat) \<le> 3200 \<and> monthsToGoal 3000 3200 735 = 0
   \<and> (0::rat) \<le> 300 \<and> mBoost 25000 8200 735 300 \<le> mBase 25000 8200 735
   \<and> 0 \<le> whatIf (initial\<lparr> whatIf := 300 \<rparr>)
   \<and> monthsToPrimaryBoost (initial\<lparr> whatIf := 300 \<rparr>)
       \<le> monthsToPrimary (initial\<lparr> whatIf := 300 \<rparr>)"
  using monthsToGoal_rate [where ?r1.0 = 735 and ?r2.0 = 1035 and t = 25000 and s = 8200
      and t' = 3000 and s' = 3200 and r = 735 and boost = 300 and m = 735
      and st = "initial\<lparr> whatIf := 300 \<rparr>"]
  by simp

text \<open>
  Claim C7, as stated, at leftover 735 with the balanced profile and no debt: the
  reported share is the realized ratio 404 / 735, not 0.55.
\<close>

theorem scenario_share_counterexample:
  "\<not> (investShare (allocate 735 ''balanced'' 0 0) = 55 / 100)"
  by (simp add: allocate_735_balanced)

text \<open>
  Claim C7, amended. At leftover 735 with the balanced profile: without a card debt
  above 10 percent the nominal share is 0.55, 404 is invested and 331 kept as cash, and
  the reported share is 404 / 735; with a card balance of 1200 at 19.99 percent the
  nominal share is 0.30, 221 is invested and 514 kept as cash, and the reported share
  is 221 / 735. The dashboard shows these as 55 and 30 percent.
\<close>

theorem scenario_allocation:
  "(\<not> (0 < d \<and> 10 < a) \<longrightarrow>
      share ''balanced'' d a = 55 / 100
      \<and> allocate 735 ''balanced'' d a
          = \<lparr> recSaveCash = 331, recInvest = 404, investShare = 404 / 735 \<rparr>
      \<and> Math_round (min 1 (max 0 (investShare (allocate 735 ''balanced'' d a))) * 100) = 55)
   \<and> share ''balanced'' 1200 (1999 / 100) = 30 / 100
   \<and> allocate 735 ''balanced'' 1200 (1999 / 100)
       = \<lparr> recSaveCash = 514, recInvest = 221, investShare = 221 / 735 \<rparr>
   \<and> leftover initial = 735 \<and> plan initial = allocate 735 ''balanced'' 1200 (1999 / 100)
   \<and> investSharePct initial = 30"
  by (simp add: allocate_735_balanced allocate_735_balanced_card leftover_initial plan_initial
      investSharePct_def share_def baseShare_def Math_round_def)

theorem scenario_allocation_witness:
  "\<not> (0 < (1200::rat) \<and> 10 < (5::rat))
     \<and> share ''balanced'' 1200 5 = 55 / 100
     \<and> recInvest (allocate 735 ''balanced'' 1200 5) = 404
     \<and> recSaveCash (allocate 735 ''balanced'' 1200 5) = 331
     \<and> investShare (allocate 735 ''balanced'' 1200 5) = 404 / 735"
  using scenario_allocation [of 1200 5]
  by simp

section \<open>Insights\<close>

lemma insightsMemo_titles:
  "map title (insightsMemo inc rnt debt apr subs din mtg core emt) =
     take 5 (map snd (filter fst
       [(rnt / max 1 inc * 100 > 35, ''Housing Is High vs Benchmark''),
        (debt > 0 \<and> apr \<ge> 15, ''High-Interest Debt First''),
        (subs > 40, ''Subscriptions Audit''),
        (din > 200, ''Dining Out Creep''),
        (mtg < 500, ''Increase Savings Rate''),
        (core > 0, ''Emergency Fund Target'')]))"
  by (simp add: insightsMemo_def Let_def)

lemma insightsMemo_length:
  "length (insightsMemo inc rnt debt apr subs din mtg core emt) \<le> 5"
  by (simp add: insightsMemo_def Let_def)

lemma insightsMemo_distinct:
  "distinct (map title (insightsMemo inc rnt debt apr subs din mtg core emt))"
  unfolding insightsMemo_titles by (intro distinct_take) (simp add: distinct_map_filter)

lemma monthlyToGoals_low_income: "monthlyToGoals (initial\<lparr> income := 3700 \<rparr>) = 435"
  by (simp add: monthlyToGoals_def plan_def allocate_fields share_def baseShare_def
      Math_round_def leftover_def spendTotal_def fixedTotal_def variableTotal_def initial_def)

text \<open>
  Claim C6. The insights are the rules that trigger, taken in the declared order
  (housing, high-interest debt, subscriptions, dining, savings rate, emergency fund),
  each at most once, and cut after the fifth; the list never has more than five
  entries, and two dashboards that agree on the nine values the rules read get the same
  list.
\<close>

theorem insights_first_five:
  "map title (insights s) =
     take 5 (map snd (filter fst
       [(rent s / max 1 (income s) * 100 > 35, ''Housing Is High vs Benchmark''),
        (ccDebt s > 0 \<and> ccApr s \<ge> 15, ''High-Interest Debt First''),
        (subscriptions s > 40, ''Subscriptions Audit''),
        (dining s > 200, ''Dining Out Creep''),
        (monthlyToGoals s < 500, ''Increase Savings Rate''),
        (monthlyCoreSpend s > 0, ''Emergency Fund Target'')]))
   \<and> length (insights s) \<le> 5
   \<and> distinct (map title (insights s))
   \<and> (income s = income s' \<and> rent s = rent s' \<and> ccDebt s = ccDebt s' \<and> ccApr s = ccApr s'
        \<and> subscriptions s = subscriptions s' \<and> dining s = dining s'
        \<and> monthlyToGoals s = monthlyToGoals s' \<and> monthlyCoreSpend s = monthlyCoreSpend s'
        \<and> emergencyTarget s = emergencyTarget s'
      \<longrightarrow> insights s = insights s')"
  unfolding insights_def
  using insightsMemo_titles [of "income s" "rent s" "ccDebt s" "ccApr s" "subscriptions s"
      "dining s" "monthlyToGoals s" "monthlyCoreSpend s" "emergencyTarget s"]
    insightsMemo_length [of "income s" "rent s" "ccDebt s" "ccApr s" "subscriptions s"
      "dining s" "monthlyToGoals s" "monthlyCoreSpend s" "emergencyTarget s"]
    insightsMemo_distinct [of "income s" "rent s" "ccDebt s" "ccApr s" "subscriptions s"
      "dining s" "monthlyToGoals s" "monthlyCoreSpend s" "emergencyTarget s"]
  by simp

theorem insights_first_five_witness:
  "map title (insights (initial\<lparr> income := 3700 \<rparr>)) =
     [''Housing Is High vs Benchmark'', ''High-Interest Debt First'', ''Subscriptions Audit'',
      ''Dining Out Creep'', ''Increase Savings Rate'']
   \<and> length (insights (initial\<lparr> income := 3700 \<rparr>)) \<le> 5
   \<and> monthlyCoreSpend (initial\<lparr> income := 3700 \<rparr>) > 0
   \<and> insights (initial\<lparr> income := 3700 \<rparr>)
       = insights (initial\<lparr> income := 3700, studentLoan := 0, whatIf := 300 \<rparr>)"
proof -
  have same: "monthlyToGoals (initial\<lparr> income := 3700 \<rparr>)
      = monthlyToGoals (initial\<lparr> income := 3700, studentLoan := 0, whatIf := 300 \<rparr>)"
    by (simp add: monthlyToGoals_def plan_def leftover_def spendTotal_def fixedTotal_def
        variableTotal_def)
  note t = insights_first_five [where s = "initial\<lparr> income := 3700 \<rparr>"
      and s' = "initial\<lparr> income := 3700, studentLoan := 0, whatIf := 300 \<rparr>"]
  have a: "map title (insights (initial\<lparr> income := 3700 \<rparr>)) =
     [''Housing Is High vs Benchmark'', ''High-Interest Debt First'', ''Subscriptions Audit'',
      ''Dining Out Creep'', ''Increase Savings Rate'']"
    using t [THEN conjunct1] unfolding monthlyToGoals_low_income
    by (simp add: initial_def monthlyCoreSpend_def)
  have b: "length (insights (initial\<lparr> income := 3700 \<rparr>)) \<le> 5"
    using t [THEN conjunct2, THEN conjunct1] .
  have c: "monthlyCoreSpend (initial\<lparr> income := 3700 \<rparr>) > 0"
    by (simp add: initial_def monthlyCoreSpend_def)
  have d: "insights (initial\<lparr> income := 3700 \<rparr>)
       = insights (initial\<lparr> income := 3700, studentLoan := 0, whatIf := 300 \<rparr>)"
    using t [THEN conjunct2, THEN conjunct2, THEN conjunct2] same
    by (simp add: monthlyCoreSpend_def emergencyTarget_def)
  show ?thesis using a b c d by (intro conjI)
qed

section \<open>Numeric fields\<close>

lemma onChange_finite: "isFinite (onChange Number raw)"
  by (simp add: onChange_def Let_def)

lemma onChange_examples:
  "onChange decimalNumber ''4000.50'' = Fin (8001 / 2)"
  "onChange decimalNumber ''Infinity'' = Fin 0"
  "onChange decimalNumber ''abc'' = Fin 0"
  "onChange decimalNumber [] = Fin 0"
  by (simp_all add: onChange_def decimalNumber_def unsignedDecimal_def digit_def)

lemma buttons_nonneg: "0 \<le> minusButton v st \<and> 0 \<le> plusButton v st"
  by (simp add: minusButton_def plusButton_def)

text \<open>
  Claim C9 at the raw text \<open>-5\<close>. Whatever the conversion, the value handed to the
  setter is finite (\<open>onChange_finite\<close>), and the two buttons never hand over a negative
  value (\<open>buttons_nonneg\<close>); but a typed negative number passes \<open>onChange\<close> unchanged:
  the text \<open>-5\<close> stores the value -5, not 0.
\<close>

theorem onChange_negative:
  "onChange decimalNumber ''-5'' = Fin (- 5) \<and> onChange decimalNumber ''-5'' \<noteq> Fin 0"
  by (simp add: onChange_def decimalNumber_def unsignedDecimal_def digit_def)

section \<open>The chat proxy's outcomes\<close>

lemma getOpenAIClient_cached: "getOpenAIClient k (Some c) = (c, Some c)"
  by (simp add: getOpenAIClient_def)

lemma getOpenAIClient_first:
  "getOpenAIClient k None =
     (case k of None \<Rightarrow> (None, Some None)
      | Some apiKey \<Rightarrow> if apiKey = [] then (None, Some None)
                        else (Some (OpenAI apiKey), Some (Some (OpenAI apiKey))))"
  by (simp add: getOpenAIClient_def)

lemma getOpenAIClient_fills:
  "snd (getOpenAIClient k None) = Some (fst (getOpenAIClient k None))"
  by (simp add: getOpenAIClient_first split: option.splits)

lemma getOpenAIClient_calls_cached:
  "list_all (\<lambda>x. x = c) (getOpenAIClient_calls (Some c) ks)"
  by (induction ks) (simp_all add: getOpenAIClient_cached)

lemma POST_offline:
  "POST k (Some None) rq create
     = (\<lparr> status = 503, json = error_json offline_message \<rparr>, Some None)"
  by (simp add: POST_def getOpenAIClient_cached)

lemma serve_offline:
  "list_all (\<lambda>r. r = \<lparr> status = 503, json = error_json offline_message \<rparr>)
     (serve (Some None) rest)"
proof (induction rest)
  case Nil
  show ?case by simp
next
  case (Cons x rest)
  obtain k rq create where x: "x = (k, rq, create)" by (cases x)
  show ?case unfolding x using Cons.IH by (simp add: POST_offline)
qed

lemma message_lengths:
  "length no_reply_message = 48" "length unexpected_message = 59"
  "length offline_message = 94"
  by (simp_all add: no_reply_message_def unexpected_message_def offline_message_def ascii_def)

lemma messages_distinct:
  "no_reply_message \<noteq> unexpected_message" "no_reply_message \<noteq> offline_message"
  "offline_message \<noteq> unexpected_message"
  using message_lengths by auto

lemma trim_empty_iff: "trim r = [] \<longleftrightarrow> list_all whitespace r"
proof -
  have "(\<forall>c\<in>set (dropWhile whitespace r). whitespace c) \<longleftrightarrow> dropWhile whitespace r = []"
  proof
    assume all: "\<forall>c\<in>set (dropWhile whitespace r). whitespace c"
    show "dropWhile whitespace r = []"
    proof (rule ccontr)
      assume ne: "dropWhile whitespace r \<noteq> []"
      then have "\<not> whitespace (hd (dropWhile whitespace r))" by (rule hd_dropWhile)
      moreover have "hd (dropWhile whitespace r) \<in> set (dropWhile whitespace r)"
        using ne by (rule hd_in_set)
      ultimately show False using all by blast
    qed
  qed (auto dest: set_dropWhileD)
  then show ?thesis
    by (simp add: trim_def dropWhile_eq_Nil_conv list_all_iff)
qed

lemma trim_examples:
  "trim [0x00A0] = []" "trim (ascii '' hi '') = ascii ''hi''"
  "trim ([0xFEFF, 0x2028] @ ascii ''a b'' @ [0x3000, 0x000A]) = ascii ''a b''"
  by (simp_all add: trim_def whitespace_def ascii_def)

lemma caught_fields:
  "status (caught e) = 500"
  "json (caught e) = error_json (case e of Error m \<Rightarrow> m | StringValue m \<Rightarrow> m
                                 | OtherValue \<Rightarrow> unexpected_message)"
  by (simp_all add: caught_def)

lemma caught_no_reply:
  "caught e = \<lparr> status = 500, json = error_json no_reply_message \<rparr>
     \<longleftrightarrow> e = Error no_reply_message \<or> e = StringValue no_reply_message"
  using messages_distinct(1) by (cases e) (auto simp: caught_def)

lemma POST_cases:
  "fst (POST k cache rq create) = \<lparr> status = 503, json = error_json offline_message \<rparr>
   \<or> fst (POST k cache rq create) = \<lparr> status = 500, json = error_json no_reply_message \<rparr>
   \<or> (\<exists>e. fst (POST k cache rq create) = caught e)
   \<or> (\<exists>r. r \<noteq> [] \<and> fst (POST k cache rq create) = \<lparr> status = 200, json = reply_json r \<rparr>)"
  by (auto simp: POST_def Let_def split: prod.splits option.splits sum.splits list.splits)

lemma POST_503:
  "status (fst (POST k cache rq create)) = 503 \<longleftrightarrow> fst (getOpenAIClient k cache) = None"
  by (auto simp: POST_def Let_def caught_fields
      split: prod.splits option.splits sum.splits list.splits)

lemma POST_no_client:
  "fst (getOpenAIClient k cache) = None \<Longrightarrow>
     fst (POST k cache rq create) = \<lparr> status = 503, json = error_json offline_message \<rparr>"
  by (auto simp: POST_def split: prod.splits option.splits)

lemma POST_body_throws:
  "fst (getOpenAIClient k cache) = Some cl \<Longrightarrow> fst (POST k cache (Inl e) create) = caught e"
  by (auto simp: POST_def split: prod.splits option.splits)

lemma POST_create_throws:
  "fst (getOpenAIClient k cache) = Some cl \<Longrightarrow>
   create cl \<lparr> model = ''gpt-4o-mini'', chat_messages = chatMessages b,
               temperature = 7 / 10 \<rparr> = Inl e \<Longrightarrow>
   fst (POST k cache (Inr b) create) = caught e"
  by (auto simp: POST_def split: prod.splits option.splits)

lemma POST_no_reply:
  "fst (getOpenAIClient k cache) = Some cl \<Longrightarrow>
   create cl \<lparr> model = ''gpt-4o-mini'', chat_messages = chatMessages b,
               temperature = 7 / 10 \<rparr> = Inr choices \<Longrightarrow>
   (case choices of [] \<Rightarrow> None | c # _ \<Rightarrow> map_option trim c) \<in> {None, Some []} \<Longrightarrow>
   fst (POST k cache (Inr b) create) = \<lparr> status = 500, json = error_json no_reply_message \<rparr>"
  by (auto simp: POST_def Let_def split: prod.splits option.splits list.splits)

lemma POST_blank_reply:
  "fst (getOpenAIClient k cache) = Some cl \<Longrightarrow>
   create cl \<lparr> model = ''gpt-4o-mini'', chat_messages = chatMessages b,
               temperature = 7 / 10 \<rparr> = Inr (Some r # rest) \<Longrightarrow>
   list_all whitespace r \<Longrightarrow>
   fst (POST k cache (Inr b) create) = \<lparr> status = 500, json = error_json no_reply_message \<rparr>"
  using POST_no_reply [of k cache cl create b "Some r # rest"]
  by (simp add: trim_empty_iff)

lemma POST_reply:
  "fst (getOpenAIClient k cache) = Some cl \<Longrightarrow>
   create cl \<lparr> model = ''gpt-4o-mini'', chat_messages = chatMessages b,
               temperature = 7 / 10 \<rparr> = Inr (Some r # rest) \<Longrightarrow>
   \<not> list_all whitespace r \<Longrightarrow>
   fst (POST k cache (Inr b) create) = \<lparr> status = 200, json = reply_json (trim r) \<rparr>
     \<and> trim r \<noteq> []"
  by (auto simp: POST_def Let_def trim_empty_iff split: prod.splits option.splits)

text \<open>
  Claim C8. Every response of the endpoint is a reply with status 200 or one of three
  failures. (a) Without a client the response has status 503 and the offline text, and
  503 is returned in no other case. (b) A value thrown while the body is read or by the
  upstream call gives status 500 with the thrown value's own message, or the fixed
  unexpected-issue text when it carries none. (c) An upstream answer without usable
  content gives status 500 with the fixed no-reply text, which differs from the
  unexpected-issue text and from the offline text; a thrown value gives this same
  response only if it carries the no-reply text itself. A content is unusable exactly
  when it is missing or consists of white space only; any other content is answered
  with status 200 and the trimmed content.
\<close>

theorem POST_failure_outcomes:
  "(fst (getOpenAIClient ka cachea) = None \<longrightarrow>
      fst (POST ka cachea rqa createa) = \<lparr> status = 503, json = error_json offline_message \<rparr>)
   \<and> (status (fst (POST k cache rq create)) = 503 \<longleftrightarrow> fst (getOpenAIClient k cache) = None)
   \<and> (fst (getOpenAIClient kb cacheb) = Some clb
        \<and> createb clb \<lparr> model = ''gpt-4o-mini'', chat_messages = chatMessages bb,
                          temperature = 7 / 10 \<rparr> = Inl eb \<longrightarrow>
      fst (POST kb cacheb (Inr bb) createb) = caught eb
      \<and> fst (POST kb cacheb (Inl eb) createb) = caught eb)
   \<and> status (caught e) = 500
   \<and> json (caught e) = error_json (case e of Error m \<Rightarrow> m | StringValue m \<Rightarrow> m
                                    | OtherValue \<Rightarrow> unexpected_message)
   \<and> (fst (getOpenAIClient kc cachec) = Some clc
        \<and> createc clc \<lparr> model = ''gpt-4o-mini'', chat_messages = chatMessages bc,
                          temperature = 7 / 10 \<rparr> = Inr choices
        \<and> (case choices of [] \<Rightarrow> None | c # _ \<Rightarrow> map_option trim c) \<in> {None, Some []} \<longrightarrow>
      fst (POST kc cachec (Inr bc) createc)
        = \<lparr> status = 500, json = error_json no_reply_message \<rparr>)
   \<and> no_reply_message \<noteq> unexpected_message \<and> no_reply_message \<noteq> offline_message
   \<and> offline_message \<noteq> unexpected_message
   \<and> (caught e = \<lparr> status = 500, json = error_json no_reply_message \<rparr>
        \<longleftrightarrow> e = Error no_reply_message \<or> e = StringValue no_reply_message)
   \<and> (fst (POST k cache rq create) = \<lparr> status = 503, json = error_json offline_message \<rparr>
        \<or> fst (POST k cache rq create) = \<lparr> status = 500, json = error_json no_reply_message \<rparr>
        \<or> (\<exists>e. fst (POST k cache rq create) = caught e)
        \<or> (\<exists>r. r \<noteq> [] \<and> fst (POST k cache rq create)
                            = \<lparr> status = 200, json = reply_json r \<rparr>))
   \<and> (trim r = [] \<longleftrightarrow> list_all whitespace r)
   \<and> (fst (getOpenAIClient kd cached) = Some cld
        \<and> created cld \<lparr> model = ''gpt-4o-mini'', chat_messages = chatMessages bd,
                          temperature = 7 / 10 \<rparr> = Inr (Some rd # restd)
        \<and> list_all whitespace rd \<longrightarrow>
      fst (POST kd cached (Inr bd) created)
        = \<lparr> status = 500, json = error_json no_reply_message \<rparr>)
   \<and> (fst (getOpenAIClient ke cachee) = Some cle
        \<and> createe cle \<lparr> model = ''gpt-4o-mini'', chat_messages = chatMessages be,
                          temperature = 7 / 10 \<rparr> = Inr (Some re # reste)
        \<and> \<not> list_all whitespace re \<longrightarrow>
      fst (POST ke cachee (Inr be) createe) = \<lparr> status = 200, json = reply_json (trim re) \<rparr>
      \<and> trim re \<noteq> [])"
  using POST_no_client [of ka cachea rqa createa] POST_503 [of k cache rq create]
    POST_create_throws [of kb cacheb clb createb bb eb]
    POST_body_throws [of kb cacheb clb eb createb]
    caught_fields [of e] POST_no_reply [of kc cachec clc createc bc choices]
    messages_distinct caught_no_reply [of e] POST_cases [of k cache rq create]
    trim_empty_iff [of r] POST_blank_reply [of kd cached cld created bd rd restd]
    POST_reply [of ke cachee cle createe be re reste]
  by blast

theorem POST_failure_outcomes_witness:
  "fst (POST None None (Inr \<lparr> messages = None, ctx = None \<rparr>) (\<lambda>_ _. Inr [Some (ascii ''hi'')]))
     = \<lparr> status = 503, json = error_json offline_message \<rparr>
   \<and> fst (POST (Some ''sk-test'') None (Inr \<lparr> messages = None, ctx = None \<rparr>)
          (\<lambda>_ _. Inl (Error (ascii ''Connection error.''))))
     = \<lparr> status = 500, json = error_json (ascii ''Connection error.'') \<rparr>
   \<and> fst (POST (Some ''sk-test'') None (Inr \<lparr> messages = None, ctx = None \<rparr>)
          (\<lambda>_ _. Inr [Some [0x0020, 0x00A0]]))
     = \<lparr> status = 500, json = error_json no_reply_message \<rparr>
   \<and> list_all whitespace [0x00A0]
   \<and> fst (POST (Some ''sk-test'') None (Inr \<lparr> messages = None, ctx = None \<rparr>)
          (\<lambda>_ _. Inr [Some [0x00A0]]))
     = \<lparr> status = 500, json = error_json no_reply_message \<rparr>
   \<and> \<not> list_all whitespace (ascii '' hi '')
   \<and> fst (POST (Some ''sk-test'') None (Inr \<lparr> messages = None, ctx = None \<rparr>)
          (\<lambda>_ _. Inr [Some (ascii '' hi '')]))
     = \<lparr> status = 200, json = reply_json (ascii ''hi'') \<rparr>"
proof -
  note t = POST_failure_outcomes [where ka = None and cachea = None
      and rqa = "Inr \<lparr> messages = None, ctx = None \<rparr>"
      and createa = "\<lambda>_ _. Inr [Some (ascii ''hi'')]"
      and kb = "Some ''sk-test''" and cacheb = None and clb = "OpenAI ''sk-test''"
      and createb = "\<lambda>_ _. Inl (Error (ascii ''Connection error.''))"
      and bb = "\<lparr> messages = None, ctx = None \<rparr>" and eb = "Error (ascii ''Connection error.'')"
      and kc = "Some ''sk-test''" and cachec = None and clc = "OpenAI ''sk-test''"
      and createc = "\<lambda>_ _. Inr [Some [0x0020, 0x00A0]]"
      and bc = "\<lparr> messages = None, ctx = None \<rparr>" and choices = "[Some [0x0020, 0x00A0]]"
      and kd = "Some ''sk-test''" and cached = None and cld = "OpenAI ''sk-test''"
      and created = "\<lambda>_ _. Inr [Some [0x00A0]]"
      and bd = "\<lparr> messages = None, ctx = None \<rparr>" and rd = "[0x00A0]" and restd = "[]"
      and ke = "Some ''sk-test''" and cachee = None and cle = "OpenAI ''sk-test''"
      and createe = "\<lambda>_ _. Inr [Some (ascii '' hi '')]"
      and be = "\<lparr> messages = None, ctx = None \<rparr>" and re = "ascii '' hi ''" and reste = "[]"]
  have a: "fst (POST None None (Inr \<lparr> messages = None, ctx = None \<rparr>)
          (\<lambda>_ _. Inr [Some (ascii ''hi'')]))
     = \<lparr> status = 503, json = error_json offline_message \<rparr>"
    using t [THEN conjunct1] by (simp add: getOpenAIClient_first)
  have b: "fst (POST (Some ''sk-test'') None (Inr \<lparr> messages = None, ctx = None \<rparr>)
          (\<lambda>_ _. Inl (Error (ascii ''Connection error.''))))
     = \<lparr> status = 500, json = error_json (ascii ''Connection error.'') \<rparr>"
    using t [THEN conjunct2, THEN conjunct2, THEN conjunct1]
    by (simp add: getOpenAIClient_first caught_def)
  have c: "fst (POST (Some ''sk-test'') None (Inr \<lparr> messages = None, ctx = None \<rparr>)
          (\<lambda>_ _. Inr [Some [0x0020, 0x00A0]]))
     = \<lparr> status = 500, json = error_json no_reply_message \<rparr>"
    using t [THEN conjunct2, THEN conjunct2, THEN conjunct2, THEN conjunct2, THEN conjunct2,
        THEN conjunct1]
    by (simp add: getOpenAIClient_first trim_def whitespace_def)
  have wd: "list_all whitespace [0x00A0]"
    by (simp add: whitespace_def)
  have d: "fst (POST (Some ''sk-test'') None (Inr \<lparr> messages = None, ctx = None \<rparr>)
          (\<lambda>_ _. Inr [Some [0x00A0]]))
     = \<lparr> status = 500, json = error_json no_reply_message \<rparr>"
    using t [THEN conjunct2, THEN conjunct2, THEN conjunct2, THEN conjunct2, THEN conjunct2,
        THEN conjunct2, THEN conjunct2, THEN conjunct2, THEN conjunct2, THEN conjunct2,
        THEN conjunct2, THEN conjunct2, THEN conjunct1] wd
    by (simp add: getOpenAIClient_first)
  have we: "\<not> list_all whitespace (ascii '' hi '')"
    by (simp add: whitespace_def ascii_def)
  have te: "trim (ascii '' hi '') = ascii ''hi''"
    by (simp add: trim_def whitespace_def ascii_def)
  have e: "fst (POST (Some ''sk-test'') None (Inr \<lparr> messages = None, ctx = None \<rparr>)
          (\<lambda>_ _. Inr [Some (ascii '' hi '')]))
     = \<lparr> status = 200, json = reply_json (ascii ''hi'') \<rparr>"
    using t [THEN conjunct2, THEN conjunct2, THEN conjunct2, THEN conjunct2, THEN conjunct2,
        THEN conjunct2, THEN conjunct2, THEN conjunct2, THEN conjunct2, THEN conjunct2,
        THEN conjunct2, THEN conjunct2, THEN conjunct2] we
    by (simp add: getOpenAIClient_first te)
  show ?thesis using a b c wd d we e by (intro conjI)
qed

text \<open>
  Claim C10. The first call of \<open>getOpenAIClient\<close> in a process yields no client when the
  key is unset or empty at that moment and a client otherwise; every later call, whatever
  the environment then holds, returns that same result and leaves \<open>cachedClient\<close> as it
  is. So when the key was missing at the first chat request, every request the process
  serves is answered with the 503 offline response, also after the key has been set.
\<close>

theorem getOpenAIClient_memoized:
  "fst (getOpenAIClient k1 None)
     = (case k1 of None \<Rightarrow> None
        | Some apiKey \<Rightarrow> if apiKey = [] then None else Some (OpenAI apiKey))
   \<and> getOpenAIClient k2 (snd (getOpenAIClient k1 None))
       = (fst (getOpenAIClient k1 None), snd (getOpenAIClient k1 None))
   \<and> list_all (\<lambda>c. c = fst (getOpenAIClient k1 None)) (getOpenAIClient_calls None (k1 # ks))
   \<and> (k1 = None \<or> k1 = Some [] \<longrightarrow>
        list_all (\<lambda>r. r = \<lparr> status = 503, json = error_json offline_message \<rparr>)
          (serve None ((k1, rq, create) # rest)))"
proof -
  obtain c where c: "getOpenAIClient k1 None = (c, Some c)"
    using getOpenAIClient_fills [of k1] by (cases "getOpenAIClient k1 None") simp
  have "k1 = None \<or> k1 = Some [] \<Longrightarrow> c = None"
    using c by (auto simp: getOpenAIClient_first)
  then have "k1 = None \<or> k1 = Some [] \<Longrightarrow>
      POST k1 None rq create
        = (\<lparr> status = 503, json = error_json offline_message \<rparr>, Some None)"
    using c by (simp add: POST_def)
  then show ?thesis
    using c getOpenAIClient_calls_cached [of c ks] serve_offline [of rest]
    by (auto simp: getOpenAIClient_cached getOpenAIClient_first split: option.splits)
qed

theorem getOpenAIClient_memoized_witness:
  "getOpenAIClient (Some ''sk-test'') (snd (getOpenAIClient None None)) = (None, Some None)
   \<and> getOpenAIClient_calls None [None, Some ''sk-test'', None] = [None, None, None]
   \<and> serve None [(None, Inr \<lparr> messages = None, ctx = None \<rparr>, \<lambda>_ _. Inr [Some (ascii ''hi'')]),
                  (Some ''sk-test'', Inr \<lparr> messages = None, ctx = None \<rparr>,
                   \<lambda>_ _. Inr [Some (ascii ''hi'')])]
       = [\<lparr> status = 503, json = error_json offline_message \<rparr>,
          \<lparr> status = 503, json = error_json offline_message \<rparr>]"
  using getOpenAIClient_memoized [where ?k1.0 = None and ?k2.0 = "Some ''sk-test''"
      and ks = "[Some ''sk-test'', None]" and rq = "Inr \<lparr> messages = None, ctx = None \<rparr>"
      and create = "\<lambda>_ _. Inr [Some (ascii ''hi'')]"
      and rest = "[(Some ''sk-test'', Inr \<lparr> messages = None, ctx = None \<rparr>,
                   \<lambda>_ _. Inr [Some (ascii ''hi'')])]"]
  by (simp add: getOpenAIClient_def POST_def)

lemma serve_key_present:
  "serve None [(Some ''sk-test'', Inr \<lparr> messages = None, ctx = None \<rparr>, \<lambda>_ _. Inr [Some (ascii '' hi '')]),
               (None, Inr \<lparr> messages = None, ctx = None \<rparr>, \<lambda>_ _. Inr [Some (ascii ''again'')])]
     = [\<lparr> status = 200, json = reply_json (ascii ''hi'') \<rparr>,
        \<lparr> status = 200, json = reply_json (ascii ''again'') \<rparr>]"
  by (simp add: getOpenAIClient_def POST_def trim_def whitespace_def ascii_def)

end
